theory Spec2Isabelle
  imports Complex_Main
begin

section \<open>JavaScript values\<close>

text \<open>
  Monetary amounts and percentages are JavaScript numbers. They are modelled exactly, as
  rationals, together with the three special values a division can produce; the rounding
  of IEEE doubles is not modelled. Stored amounts and budgets are finite (the schemas
  declare them \<^verbatim>\<open>Number\<close> with \<^verbatim>\<open>min: 0\<close>), so they are plain rationals.
\<close>

datatype jsnum = Fin rat | PosInfinity | NegInfinity | NaN

text \<open>\<^verbatim>\<open>a / b\<close> on finite numbers.\<close>

definition js_div :: "rat \<Rightarrow> rat \<Rightarrow> jsnum" where
  "js_div a b =
     (if b = 0 then (if a = 0 then NaN else if 0 < a then PosInfinity else NegInfinity)
      else Fin (a / b))"

text \<open>\<^verbatim>\<open>x * c\<close> for a finite constant \<open>c\<close>.\<close>

definition js_mul :: "jsnum \<Rightarrow> rat \<Rightarrow> jsnum" where
  "js_mul x c =
     (case x of
        Fin a \<Rightarrow> Fin (a * c)
      | NaN \<Rightarrow> NaN
      | PosInfinity \<Rightarrow> (if 0 < c then PosInfinity else if c < 0 then NegInfinity else NaN)
      | NegInfinity \<Rightarrow> (if 0 < c then NegInfinity else if c < 0 then PosInfinity else NaN))"

text \<open>\<^verbatim>\<open>x > c\<close>: every comparison with NaN is false.\<close>

definition js_gt :: "jsnum \<Rightarrow> rat \<Rightarrow> bool" where
  "js_gt x c = (case x of Fin a \<Rightarrow> c < a | PosInfinity \<Rightarrow> True | NegInfinity \<Rightarrow> False | NaN \<Rightarrow> False)"

text \<open>
  \<^verbatim>\<open>parseFloat(x.toFixed(2))\<close>: the nearest multiple of 1/100, on a tie the one
  farther from zero (\<^verbatim>\<open>toFixed\<close> rounds the magnitude and puts the sign back);
  \<^verbatim>\<open>toFixed\<close> prints the special values by name and \<^verbatim>\<open>parseFloat\<close> reads them back.
\<close>

definition toFixed2 :: "jsnum \<Rightarrow> jsnum" where
  "toFixed2 x =
     (case x of
        Fin a \<Rightarrow>
          if a < 0 then Fin (- (of_int \<lfloor>- a * 100 + 1 / 2\<rfloor> / 100))
          else Fin (of_int \<lfloor>a * 100 + 1 / 2\<rfloor> / 100)
      | _ \<Rightarrow> x)"

text \<open>
  Values that arrive in a request body or come out of \<^verbatim>\<open>JSON.parse\<close>.
\<close>

datatype jsval =
    JUndefined
  | JNull
  | JBool bool
  | JNum rat
  | JStr string
  | JArr "jsval list"
  | JObj "(string \<times> jsval) list"


section \<open>Dates\<close>

text \<open>
  A \<^verbatim>\<open>Date\<close> is its time value: milliseconds on the server's local time line (time zone
  offset and daylight saving are not modelled). \<^verbatim>\<open>new Date(year, month, day, h, m, s)\<close>
  is ECMAScript's \<^verbatim>\<open>MakeDate(MakeDay(year, month, day), MakeTime(h, m, s, 0))\<close>: the month
  index is taken modulo 12 with the carry added to the year, and the day of the month is
  added linearly, so that day 0 is the last day of the month before.
\<close>

definition isLeapYear :: "int \<Rightarrow> bool" where
  "isLeapYear y =
     (if y mod 4 \<noteq> 0 then False else if y mod 100 \<noteq> 0 then True else y mod 400 = 0)"

definition DayFromYear :: "int \<Rightarrow> int" where
  "DayFromYear y = 365 * (y - 1970) + (y - 1969) div 4 - (y - 1901) div 100 + (y - 1601) div 400"

definition daysBeforeMonth :: "bool \<Rightarrow> int \<Rightarrow> int" where
  "daysBeforeMonth leap m =
     [0, 31, 59, 90, 120, 151, 181, 212, 243, 273, 304, 334] ! nat m
     + (if leap \<and> 2 \<le> m then 1 else 0)"

definition MakeDay :: "int \<Rightarrow> int \<Rightarrow> int \<Rightarrow> int" where
  "MakeDay year month day =
     (let ym = year + month div 12; mn = month mod 12
      in DayFromYear ym + daysBeforeMonth (isLeapYear ym) mn + day - 1)"

definition MakeTime :: "int \<Rightarrow> int \<Rightarrow> int \<Rightarrow> int \<Rightarrow> int" where
  "MakeTime h m s ms = h * 3600000 + m * 60000 + s * 1000 + ms"

definition newDate :: "int \<Rightarrow> int \<Rightarrow> int \<Rightarrow> int \<Rightarrow> int \<Rightarrow> int \<Rightarrow> int" where
  "newDate year month day h m s = MakeDay year month day * 86400000 + MakeTime h m s 0"

text \<open>
  The calendar month in the spec's words: from the first millisecond of the first day to
  the last millisecond before the first day of the next month.
\<close>

definition calendarMonthFirstInstant :: "int \<Rightarrow> int \<Rightarrow> int" where
  "calendarMonthFirstInstant month year = MakeDay year (month - 1) 1 * 86400000"

definition calendarMonthLastInstant :: "int \<Rightarrow> int \<Rightarrow> int" where
  "calendarMonthLastInstant month year = MakeDay year month 1 * 86400000 - 1"

section \<open>Data model\<close>

record department =
  d_id :: nat
  d_name :: string
  d_allocatedBudget :: rat
  d_status :: string
  d_month :: "int option"
  d_year :: "int option"

record expense =
  e_id :: nat
  e_departmentId :: nat
  e_amount :: rat
  e_category :: string
  e_description :: "string option"
  e_date :: int
  e_createdBy :: nat

section \<open>Aggregation (analyticsService.js)\<close>

text \<open>
  The collections are passed explicitly. \<^verbatim>\<open>Model.find(filter)\<close> is \<open>filter\<close> on the
  collection, \<^verbatim>\<open>reduce\<close> is \<open>foldl\<close>.
\<close>

definition calculateTotalBudget :: "department list \<Rightarrow> int \<Rightarrow> int \<Rightarrow> rat" where
  "calculateTotalBudget depts month year =
     (let departments = filter (\<lambda>d. d_month d = Some month \<and> d_year d = Some year) depts;
          departments = (if length departments = 0 then depts else departments)
      in foldl (\<lambda>sum dept. sum + d_allocatedBudget dept) 0 departments)"

definition calculateTotalSpent :: "expense list \<Rightarrow> int \<Rightarrow> int \<Rightarrow> rat" where
  "calculateTotalSpent exps month year =
     (let startDate = newDate year (month - 1) 1 0 0 0;
          endDate = newDate year month 0 23 59 59;
          expenses = filter (\<lambda>e. startDate \<le> e_date e \<and> e_date e \<le> endDate) exps
      in foldl (\<lambda>sum expense. sum + e_amount expense) 0 expenses)"

text \<open>
  \<^verbatim>\<open>if (month && year)\<close>: both arguments are given and non-zero; callers may pass
  \<^verbatim>\<open>undefined\<close> (\<open>None\<close>), and then every expense of the department counts.
\<close>

definition calculateDepartmentSpending ::
  "expense list \<Rightarrow> nat \<Rightarrow> int option \<Rightarrow> int option \<Rightarrow> rat" where
  "calculateDepartmentSpending exps departmentId month year =
     (let expenses =
        (case (month, year) of
           (Some m, Some y) \<Rightarrow>
             if m \<noteq> 0 \<and> y \<noteq> 0 then
               (let startDate = newDate y (m - 1) 1 0 0 0;
                    endDate = newDate y m 0 23 59 59
                in filter (\<lambda>e. e_departmentId e = departmentId
                              \<and> startDate \<le> e_date e \<and> e_date e \<le> endDate) exps)
             else filter (\<lambda>e. e_departmentId e = departmentId) exps
         | _ \<Rightarrow> filter (\<lambda>e. e_departmentId e = departmentId) exps)
      in foldl (\<lambda>sum expense. sum + e_amount expense) 0 expenses)"

record breakdown_entry =
  b_departmentId :: nat
  b_departmentName :: string
  b_allocatedBudget :: rat
  b_totalSpent :: rat
  b_remaining :: rat
  b_percentageUsed :: jsnum

definition getDepartmentBreakdown ::
  "department list \<Rightarrow> expense list \<Rightarrow> int \<Rightarrow> int \<Rightarrow> breakdown_entry list" where
  "getDepartmentBreakdown depts exps month year =
     (let departments = filter (\<lambda>d. d_month d = Some month \<and> d_year d = Some year) depts;
          departments = (if length departments = 0 then depts else departments)
      in map (\<lambda>dept.
            (let totalSpent = calculateDepartmentSpending exps (d_id dept) (Some month) (Some year);
                 remaining = d_allocatedBudget dept - totalSpent;
                 percentageUsed =
                   (if 0 < d_allocatedBudget dept
                    then js_mul (js_div totalSpent (d_allocatedBudget dept)) 100 else Fin 0)
             in \<lparr> b_departmentId = d_id dept, b_departmentName = d_name dept,
                  b_allocatedBudget = d_allocatedBudget dept, b_totalSpent = totalSpent,
                  b_remaining = remaining, b_percentageUsed = percentageUsed \<rparr>))
          departments)"

section \<open>Reports (models/AIReport.js)\<close>

record dept_snapshot =
  s_departmentName :: string
  s_allocatedBudget :: rat
  s_totalSpent :: rat
  s_percentageUsed :: jsnum
  s_status :: string

record data_snapshot =
  ds_allocatedBudget :: rat
  ds_totalSpent :: rat
  ds_remainingBudget :: rat
  ds_percentageUsed :: jsnum
  ds_previousMonthSpent :: rat
  ds_monthOverMonthChange :: jsnum

text \<open>
  A summary is a value the provider sent, or the department fallback sentence
  \<^verbatim>\<open>The ${departmentName} department has spent ${percentageUsed.toFixed(2)}% of its
  allocated budget of $${allocatedBudget.toLocaleString()}.\<close>, kept as the three values
  that fill it.
\<close>

datatype summary_text = Text jsval | DeptFallbackSummary string jsnum rat

text \<open>
  The document as the code hands it to Mongoose. \<open>r_reportText\<close> holds the value whose
  \<^verbatim>\<open>JSON.stringify\<close> is stored.
\<close>

record report =
  r_id :: nat
  r_type :: string
  r_departmentId :: "nat option"
  r_month :: int
  r_year :: int
  r_reportText :: "jsval option"
  r_summary :: "summary_text option"
  r_riskLevel :: jsval
  r_recommendations :: jsval
  r_totalBudget :: "rat option"
  r_totalSpent :: "rat option"
  r_departmentsSnapshot :: "dept_snapshot list"
  r_dataSnapshot :: "data_snapshot option"
  r_generatedBy :: "nat option"

record db =
  departments :: "department list"
  expenses :: "expense list"
  reports :: "report list"

text \<open>
  What a call meets in the data store: \<open>readFails\<close> when its queries reject,
  \<open>writeFails\<close> when its write rejects (connection loss, a value the schema cannot cast).
\<close>

record faults =
  readFails :: bool
  writeFails :: bool

text \<open>The key of the unique index \<^verbatim>\<open>{ type, departmentId, month, year }\<close>.\<close>

definition naturalKey :: "report \<Rightarrow> string \<times> nat option \<times> int \<times> int" where
  "naturalKey r = (r_type r, r_departmentId r, r_month r, r_year r)"

definition newId :: "report list \<Rightarrow> nat" where
  "newId rs = foldr (\<lambda>r m. max (Suc (r_id r)) m) rs 0"

text \<open>The schema's defaults: \<^verbatim>\<open>type: 'Department'\<close>, \<^verbatim>\<open>recommendations: []\<close>.\<close>

definition blankReport :: "nat \<Rightarrow> int \<Rightarrow> int \<Rightarrow> report" where
  "blankReport i month year =
     \<lparr> r_id = i, r_type = ''Department'', r_departmentId = None, r_month = month, r_year = year,
       r_reportText = None, r_summary = None, r_riskLevel = JUndefined,
       r_recommendations = JArr [], r_totalBudget = None, r_totalSpent = None,
       r_departmentsSnapshot = [], r_dataSnapshot = None, r_generatedBy = None \<rparr>"

text \<open>
  What the code takes from its runtime: \<^verbatim>\<open>JSON.parse\<close> (\<open>None\<close> when it throws), and
  whether Mongoose drops the keys of an update whose value is \<^verbatim>\<open>undefined\<close> (versions 6
  and later do; version 5 writes \<^verbatim>\<open>null\<close> unless \<^verbatim>\<open>omitUndefined\<close> is set). The
  version is not part of the repository, so both stay parameters.
\<close>

record runtime =
  JSON_parse :: "string \<Rightarrow> jsval option"
  omitUndefined :: bool

fun updateFirst :: "('a \<Rightarrow> bool) \<Rightarrow> ('a \<Rightarrow> 'a) \<Rightarrow> 'a list \<Rightarrow> 'a list" where
  "updateFirst p f [] = []"
| "updateFirst p f (x # xs) = (if p x then f x # xs else x # updateFirst p f xs)"

text \<open>
  \<^verbatim>\<open>AIReport.findOneAndUpdate(filter, reportData, { upsert: true, ... })\<close>: Mongoose
  wraps \<open>reportData\<close> in \<^verbatim>\<open>$set\<close>, so its paths are set on the first document the filter
  matches and the document's other paths stay; with no match a document made of the
  defaults and \<open>reportData\<close> is inserted.
\<close>

definition findOneAndUpdate_upsert ::
  "(report \<Rightarrow> bool) \<Rightarrow> (report \<Rightarrow> report) \<Rightarrow> int \<Rightarrow> int \<Rightarrow> report list \<Rightarrow> report list" where
  "findOneAndUpdate_upsert matches setPaths month year rs =
     (case find matches rs of
        Some _ \<Rightarrow> updateFirst matches setPaths rs
      | None \<Rightarrow> rs @ [setPaths (blankReport (newId rs) month year)])"

text \<open>
  \<^verbatim>\<open>AIReport.create(doc)\<close>: the insert is rejected when the unique index already holds
  the document's key, and when a \<^verbatim>\<open>Number\<close> path is given NaN (Mongoose's number cast
  refuses it).
\<close>

definition AIReport_create :: "report \<Rightarrow> report list \<Rightarrow> report list option" where
  "AIReport_create doc rs =
     (if naturalKey doc \<in> set (map naturalKey rs) then None
      else if (case r_dataSnapshot doc of
                 Some ds \<Rightarrow> ds_percentageUsed ds = NaN \<or> ds_monthOverMonthChange ds = NaN
               | None \<Rightarrow> False) then None
      else Some (rs @ [doc]))"

section \<open>Analysis adapter (aiService.js)\<close>

text \<open>
  The prompt only reaches the provider, and the provider's reply is an input of the model:
  \<open>SdkRejects msg\<close> when \<^verbatim>\<open>generateContent\<close> throws, \<open>SdkText text\<close> otherwise.
\<close>

datatype sdk_reply = SdkRejects string | SdkText string

record department_data =
  dd_departmentName :: string
  dd_allocatedBudget :: rat
  dd_totalSpent :: rat
  dd_remainingBudget :: rat
  dd_percentageUsed :: jsnum
  dd_previousMonthSpent :: rat
  dd_monthOverMonthChange :: jsnum
  dd_month :: int
  dd_year :: int

record analysis =
  a_summary :: summary_text
  a_riskLevel :: jsval
  a_recommendations :: jsval

datatype ai_result = AiSuccess analysis | AiFailure string


text \<open>
  \<^verbatim>\<open>text.match(/\{[\s\S]*\}/)\<close>: from the first \<^verbatim>\<open>{\<close> that has a \<^verbatim>\<open>}\<close> after it to the
  last \<^verbatim>\<open>}\<close>.
\<close>

definition jsonMatch :: "string \<Rightarrow> string option" where
  "jsonMatch text =
     (let fromBrace = dropWhile (\<lambda>c. c \<noteq> CHR ''{'') text;
          matched = rev (dropWhile (\<lambda>c. c \<noteq> CHR ''}'') (rev fromBrace))
      in if matched = [] then None else Some matched)"

text \<open>Reading a property: \<^verbatim>\<open>undefined\<close> when it is absent.\<close>

definition getField :: "(string \<times> jsval) list \<Rightarrow> string \<Rightarrow> jsval" where
  "getField fs name = (case map_of fs name of Some v \<Rightarrow> v | None \<Rightarrow> JUndefined)"

text \<open>\<^verbatim>\<open>percentageUsed > 90 ? 'High' : percentageUsed > 75 ? 'Medium' : 'Low'\<close>\<close>

definition riskFromPercentage :: "jsnum \<Rightarrow> string" where
  "riskFromPercentage percentageUsed =
     (if js_gt percentageUsed 90 then ''High''
      else if js_gt percentageUsed 75 then ''Medium'' else ''Low'')"

definition fallbackAnalysis :: "department_data \<Rightarrow> analysis" where
  "fallbackAnalysis d =
     \<lparr> a_summary = DeptFallbackSummary (dd_departmentName d) (dd_percentageUsed d) (dd_allocatedBudget d),
       a_riskLevel = JStr (riskFromPercentage (dd_percentageUsed d)),
       a_recommendations = JArr
         [JStr ''Monitor spending closely to stay within budget'',
          JStr ''Review expense categories for optimization opportunities'',
          JStr ''Plan ahead for upcoming expenses''] \<rparr>"

text \<open>The two checks after the parse: the risk level and the recommendations array.\<close>

definition validateAnalysis :: "department_data \<Rightarrow> analysis \<Rightarrow> analysis" where
  "validateAnalysis d a =
     (let a1 = (if a_riskLevel a \<in> set [JStr ''Low'', JStr ''Medium'', JStr ''High''] then a
                else a\<lparr>a_riskLevel := JStr (riskFromPercentage (dd_percentageUsed d))\<rparr>)
      in (case a_recommendations a1 of
            JArr xs \<Rightarrow> a1
          | other \<Rightarrow> a1\<lparr>a_recommendations := JArr [other]\<rparr>))"

text \<open>
  The outer \<^verbatim>\<open>try\<close> turns every exception into \<^verbatim>\<open>{ success: false, ... }\<close>: the rejected
  call, and the \<^verbatim>\<open>TypeError\<close> of reading or (in a module, which is strict) writing a
  property of a parsed value that is not an object.
\<close>

definition generateFinancialAnalysis ::
  "(string \<Rightarrow> jsval option) \<Rightarrow> sdk_reply \<Rightarrow> department_data \<Rightarrow> ai_result" where
  "generateFinancialAnalysis parse reply departmentData =
     (case reply of
        SdkRejects msg \<Rightarrow> AiFailure msg
      | SdkText text \<Rightarrow>
          (case (case jsonMatch text of Some m \<Rightarrow> parse m | None \<Rightarrow> None) of
             None \<Rightarrow> AiSuccess (validateAnalysis departmentData (fallbackAnalysis departmentData))
           | Some (JObj fs) \<Rightarrow>
               AiSuccess (validateAnalysis departmentData
                 \<lparr> a_summary = Text (getField fs ''summary''),
                   a_riskLevel = getField fs ''riskLevel'',
                   a_recommendations = getField fs ''recommendations'' \<rparr>)
           | Some (JArr xs) \<Rightarrow>
               AiSuccess (validateAnalysis departmentData
                 \<lparr> a_summary = Text JUndefined, a_riskLevel = JUndefined,
                   a_recommendations = JUndefined \<rparr>)
           | Some other \<Rightarrow> AiFailure ''TypeError''))"

section \<open>The scheduled recomputation (reportService.js, generateMonthlyReport)\<close>

text \<open>
  The reply of the REST call: \<open>RestRejects\<close> when \<^verbatim>\<open>axios.post\<close> rejects, otherwise
  the text that \<^verbatim>\<open>response.data?.candidates?.[0]?.content?.parts?.[0]?.text\<close> reads,
  \<open>None\<close> when the chain ends in \<^verbatim>\<open>undefined\<close>.
\<close>

datatype rest_reply = RestRejects | RestData "string option"

datatype run_error = StoreError | UpstreamError | InvalidResponseStructure | TypeError

text \<open>How a run ends: the success line is logged, or the outer \<^verbatim>\<open>catch\<close> logs the error.\<close>

datatype outcome = Saved | Failed run_error

text \<open>\<^verbatim>\<open>s.replace(/pat/g, '')\<close> for a literal pattern: \<open>k\<close> counts the characters of a match still to drop.\<close>

fun removeAll :: "string \<Rightarrow> nat \<Rightarrow> string \<Rightarrow> string" where
  "removeAll pat k [] = []"
| "removeAll pat k (c # cs) =
     (if 0 < k then removeAll pat (k - 1) cs
      else if pat \<noteq> [] \<and> take (length pat) (c # cs) = pat then removeAll pat (length pat - 1) cs
      else c # removeAll pat 0 cs)"

definition isSpace :: "char \<Rightarrow> bool" where
  "isSpace c = (c \<in> set [CHR '' '', CHR 0x09, CHR 0x0A, CHR 0x0B, CHR 0x0C, CHR 0x0D])"

text \<open>\<^verbatim>\<open>trim()\<close>, for the white space of ASCII.\<close>

definition trim :: "string \<Rightarrow> string" where
  "trim s = rev (dropWhile isSpace (rev (dropWhile isSpace s)))"

definition cleanText :: "string \<Rightarrow> string" where
  "cleanText responseText = trim (removeAll ''```'' 0 (removeAll ''```json'' 0 responseText))"

definition schedulerFallback :: "jsnum \<Rightarrow> jsval" where
  "schedulerFallback globalPercentageUsed =
     JObj [(''summary'', JStr ''Automated analysis unavailable. Spending data is accurate.''),
           (''insights'', JArr [JStr ''Review department spending manually.'']),
           (''recommendations'', JArr [JStr ''Generate specific department reports.'']),
           (''riskLevel'', JStr (if js_gt globalPercentageUsed 90 then ''High'' else ''Medium''))]"

text \<open>
  \<^verbatim>\<open>aiResponse.summary\<close> and its siblings: a \<^verbatim>\<open>TypeError\<close> on \<^verbatim>\<open>null\<close>, the property
  of an object, \<^verbatim>\<open>undefined\<close> on anything else.
\<close>

definition readProperty :: "jsval \<Rightarrow> string \<Rightarrow> jsval option" where
  "readProperty v name =
     (case v of
        JNull \<Rightarrow> None
      | JUndefined \<Rightarrow> None
      | JObj fs \<Rightarrow> Some (getField fs name)
      | _ \<Rightarrow> Some JUndefined)"

text \<open>
  The per-department snapshot. The callbacks of \<^verbatim>\<open>Promise.all\<close> push in the order
  their queries complete; the model takes the order of the departments.
\<close>

definition departmentSnapshot :: "expense list \<Rightarrow> int \<Rightarrow> int \<Rightarrow> department \<Rightarrow> dept_snapshot" where
  "departmentSnapshot exps month year dept =
     (let spent = calculateDepartmentSpending exps (d_id dept) (Some month) (Some year);
          percentageUsed =
            (if 0 < d_allocatedBudget dept
             then js_mul (js_div spent (d_allocatedBudget dept)) 100 else Fin 0)
      in \<lparr> s_departmentName = d_name dept, s_allocatedBudget = d_allocatedBudget dept,
           s_totalSpent = spent, s_percentageUsed = toFixed2 percentageUsed,
           s_status = d_status dept \<rparr>)"

text \<open>
  \<^verbatim>\<open>reportData\<close>. The three values read from \<open>aiResponse\<close> can be \<^verbatim>\<open>undefined\<close>; the
  other paths always have a value.
\<close>

record report_data =
  rd_month :: int
  rd_year :: int
  rd_aiResponse :: jsval
  rd_summary :: jsval
  rd_riskLevel :: jsval
  rd_recommendations :: jsval
  rd_totalBudget :: rat
  rd_totalSpent :: rat
  rd_departmentsSnapshot :: "dept_snapshot list"

text \<open>The paths of \<open>reportData\<close>, set on a document.\<close>

definition setReportData :: "bool \<Rightarrow> report_data \<Rightarrow> report \<Rightarrow> report" where
  "setReportData omitUndef rd r =
     r\<lparr> r_type := ''Global'', r_month := rd_month rd, r_year := rd_year rd,
        r_reportText := Some (rd_aiResponse rd),
        r_summary :=
          (if omitUndef \<and> rd_summary rd = JUndefined then r_summary r
           else Some (Text (rd_summary rd))),
        r_riskLevel :=
          (if omitUndef \<and> rd_riskLevel rd = JUndefined then r_riskLevel r
           else rd_riskLevel rd),
        r_recommendations :=
          (if omitUndef \<and> rd_recommendations rd = JUndefined then r_recommendations r
           else rd_recommendations rd),
        r_totalBudget := Some (rd_totalBudget rd), r_totalSpent := Some (rd_totalSpent rd),
        r_departmentsSnapshot := rd_departmentsSnapshot rd \<rparr>"

text \<open>Steps 1 and 2 of the run: the snapshot and the totals of the active departments.\<close>

definition aggregate :: "db \<Rightarrow> int \<Rightarrow> int \<Rightarrow> dept_snapshot list \<times> rat \<times> rat \<times> jsnum" where
  "aggregate store month year =
     (let depts = filter (\<lambda>d. d_status d = ''Active'') (departments store);
          departmentsSnapshot = map (departmentSnapshot (expenses store) month year) depts;
          totalAllocatedBudget = foldl (\<lambda>sum d. sum + d_allocatedBudget d) 0 depts;
          totalSpent = foldl (\<lambda>sum s. sum + s_totalSpent s) 0 departmentsSnapshot;
          globalPercentageUsed =
            (if 0 < totalAllocatedBudget
             then js_mul (js_div totalSpent totalAllocatedBudget) 100 else Fin 0)
      in (departmentsSnapshot, totalAllocatedBudget, totalSpent, globalPercentageUsed))"

definition isGlobalReportFor :: "int \<Rightarrow> int \<Rightarrow> report \<Rightarrow> bool" where
  "isGlobalReportFor month year r = (r_type r = ''Global'' \<and> r_month r = month \<and> r_year r = year)"

text \<open>
  Steps 1 to 4 of the run, up to the write: the payload, or the error the outer
  \<^verbatim>\<open>catch\<close> logs.
\<close>

definition buildReportData ::
  "runtime \<Rightarrow> faults \<Rightarrow> rest_reply \<Rightarrow> int \<Rightarrow> int \<Rightarrow> db \<Rightarrow> run_error + report_data" where
  "buildReportData rt flt reply month year store =
     (if readFails flt then Inl StoreError
      else
        (case aggregate store month year of
           (departmentsSnapshot, totalAllocatedBudget, totalSpent, globalPercentageUsed) \<Rightarrow>
             (case reply of
                RestRejects \<Rightarrow> Inl UpstreamError
              | RestData None \<Rightarrow> Inl InvalidResponseStructure
              | RestData (Some responseText) \<Rightarrow>
                  if responseText = [] then Inl InvalidResponseStructure
                  else
                    (let aiResponse =
                           (case JSON_parse rt (cleanText responseText) of
                              Some v \<Rightarrow> v
                            | None \<Rightarrow> schedulerFallback globalPercentageUsed)
                     in case (readProperty aiResponse ''summary'',
                              readProperty aiResponse ''riskLevel'',
                              readProperty aiResponse ''recommendations'') of
                          (Some summary, Some riskLevel, Some recommendations) \<Rightarrow>
                            Inr \<lparr> rd_month = month, rd_year = year,
                                  rd_aiResponse = aiResponse, rd_summary = summary,
                                  rd_riskLevel = riskLevel,
                                  rd_recommendations = recommendations,
                                  rd_totalBudget = totalAllocatedBudget,
                                  rd_totalSpent = totalSpent,
                                  rd_departmentsSnapshot = departmentsSnapshot \<rparr>
                        | _ \<Rightarrow> Inl TypeError))))"

text \<open>The run: the payload is built, then written by the one upsert.\<close>

definition generateMonthlyReport ::
  "runtime \<Rightarrow> faults \<Rightarrow> rest_reply \<Rightarrow> int \<Rightarrow> int \<Rightarrow> db \<Rightarrow> outcome \<times> db" where
  "generateMonthlyReport rt flt reply month year store =
     (case buildReportData rt flt reply month year store of
        Inl e \<Rightarrow> (Failed e, store)
      | Inr reportData \<Rightarrow>
          if writeFails flt then (Failed StoreError, store)
          else (Saved,
                store\<lparr>reports :=
                  findOneAndUpdate_upsert (isGlobalReportFor month year)
                    (setReportData (omitUndefined rt) reportData) month year (reports store)\<rparr>))"

section \<open>On-demand department reports (aiReportController.js, generateReport)\<close>

record report_request =
  q_departmentId :: "nat option"
  q_month :: int
  q_year :: int
  q_user :: nat

text \<open>\<^verbatim>\<open>reportValidation\<close>: the department is given, the month is 1 to 12, the year 2020 to 2100.\<close>

definition reportValidation :: "report_request \<Rightarrow> bool" where
  "reportValidation q =
     (q_departmentId q \<noteq> None \<and> 1 \<le> q_month q \<and> q_month q \<le> 12
      \<and> 2020 \<le> q_year q \<and> q_year q \<le> 2100)"

text \<open>
  \<^verbatim>\<open>res.status(code).json({ success, message, data })\<close>; the validation failure carries
  the list of errors in place of a message.
\<close>

datatype 'a response = Response (status: nat) (ok: bool) (message: string) (payload: "'a option")

definition reportExistsMessage :: string where
  "reportExistsMessage =
     ''Report already exists for this department and period. Delete the existing report first.''"

text \<open>The figures handed to the analysis: lines 51 to 67 of the controller.\<close>

definition reportFigures :: "expense list \<Rightarrow> department \<Rightarrow> int \<Rightarrow> int \<Rightarrow> department_data" where
  "reportFigures exps department month year =
     (let totalSpent = calculateDepartmentSpending exps (d_id department) (Some month) (Some year);
          remainingBudget = d_allocatedBudget department - totalSpent;
          percentageUsed = js_mul (js_div totalSpent (d_allocatedBudget department)) 100;
          prevMonth = month - 1;
          prevYear = year;
          (prevMonth, prevYear) = (if prevMonth = 0 then (12, prevYear - 1) else (prevMonth, prevYear));
          previousMonthSpent =
            calculateDepartmentSpending exps (d_id department) (Some prevMonth) (Some prevYear);
          monthOverMonthChange =
            (if 0 < previousMonthSpent
             then js_mul (js_div (totalSpent - previousMonthSpent) previousMonthSpent) 100
             else Fin 0)
      in \<lparr> dd_departmentName = d_name department,
           dd_allocatedBudget = d_allocatedBudget department,
           dd_totalSpent = totalSpent, dd_remainingBudget = remainingBudget,
           dd_percentageUsed = percentageUsed,
           dd_previousMonthSpent = previousMonthSpent,
           dd_monthOverMonthChange = monthOverMonthChange,
           dd_month = month, dd_year = year \<rparr>)"

definition newDepartmentReport :: "nat \<Rightarrow> report_request \<Rightarrow> department_data \<Rightarrow> analysis \<Rightarrow> report" where
  "newDepartmentReport i q d a =
     (blankReport i (q_month q) (q_year q))
       \<lparr> r_departmentId := q_departmentId q,
         r_summary := Some (a_summary a), r_riskLevel := a_riskLevel a,
         r_recommendations := a_recommendations a,
         r_dataSnapshot := Some
           \<lparr> ds_allocatedBudget = dd_allocatedBudget d, ds_totalSpent = dd_totalSpent d,
             ds_remainingBudget = dd_remainingBudget d,
             ds_percentageUsed = toFixed2 (dd_percentageUsed d),
             ds_previousMonthSpent = dd_previousMonthSpent d,
             ds_monthOverMonthChange = toFixed2 (dd_monthOverMonthChange d) \<rparr>,
         r_generatedBy := Some (q_user q) \<rparr>"

definition generateReport ::
  "runtime \<Rightarrow> faults \<Rightarrow> sdk_reply \<Rightarrow> report_request \<Rightarrow> db \<Rightarrow> report response \<times> db" where
  "generateReport rt flt reply q store =
     (if \<not> reportValidation q then (Response 400 False [] None, store)
      else if readFails flt then (Response 500 False ''Server error'' None, store)
      else
        (case find (\<lambda>d. Some (d_id d) = q_departmentId q) (departments store) of
           None \<Rightarrow> (Response 404 False ''Department not found'' None, store)
         | Some department \<Rightarrow>
             (case find (\<lambda>r. r_departmentId r = q_departmentId q \<and> r_month r = q_month q
                              \<and> r_year r = q_year q) (reports store) of
                Some existingReport \<Rightarrow> (Response 400 False reportExistsMessage None, store)
              | None \<Rightarrow>
                  (let departmentData = reportFigures (expenses store) department (q_month q) (q_year q)
                   in case generateFinancialAnalysis (JSON_parse rt) reply departmentData of
                        AiFailure e \<Rightarrow> (Response 500 False ''Failed to generate AI analysis'' None, store)
                      | AiSuccess a \<Rightarrow>
                          if writeFails flt then (Response 500 False ''Server error'' None, store)
                          else
                            (let doc = newDepartmentReport (newId (reports store)) q departmentData a
                             in case AIReport_create doc (reports store) of
                                  None \<Rightarrow> (Response 500 False ''Server error'' None, store)
                                | Some rs \<Rightarrow>
                                    (Response 201 True ''AI report generated successfully'' (Some doc),
                                     store\<lparr>reports := rs\<rparr>))))))"

section \<open>Writes to the report collection\<close>




section \<open>Monthly trend (analyticsService.js, getMonthlyTrend)\<close>

record trend_entry =
  t_month :: int
  t_year :: int
  t_monthName :: string
  t_spent :: rat

text \<open>
  \<^verbatim>\<open>new Date(yearAdjusted, month - 1).toLocaleString('default', { month: 'short' })\<close>,
  in English; the month index is taken modulo 12 as \<open>MakeDay\<close> does.
\<close>

definition monthName :: "int \<Rightarrow> string" where
  "monthName month =
     [''Jan'', ''Feb'', ''Mar'', ''Apr'', ''May'', ''Jun'',
      ''Jul'', ''Aug'', ''Sep'', ''Oct'', ''Nov'', ''Dec''] ! nat ((month - 1) mod 12)"

text \<open>The body of the loop for one value of \<open>i\<close>.\<close>

definition trendEntry :: "expense list \<Rightarrow> nat option \<Rightarrow> int \<Rightarrow> int \<Rightarrow> int \<Rightarrow> trend_entry" where
  "trendEntry exps departmentId year currentMonth i =
     (let month = currentMonth - i;
          yearAdjusted = year;
          (month, yearAdjusted) =
            (if month \<le> 0 then (month + 12, yearAdjusted - 1) else (month, yearAdjusted));
          spent =
            (case departmentId of
               Some d \<Rightarrow> calculateDepartmentSpending exps d (Some month) (Some yearAdjusted)
             | None \<Rightarrow> calculateTotalSpent exps month yearAdjusted)
      in \<lparr> t_month = month, t_year = yearAdjusted, t_monthName = monthName month, t_spent = spent \<rparr>)"

text \<open>
  \<^verbatim>\<open>for (let i = numberOfMonths - 1; i >= 0; i--)\<close>: the counter is the number of
  iterations left, so the iteration at \<open>Suc i\<close> runs the body for \<open>i\<close>.
\<close>

fun trendLoop ::
  "expense list \<Rightarrow> nat option \<Rightarrow> int \<Rightarrow> int \<Rightarrow> nat \<Rightarrow> trend_entry list \<Rightarrow> trend_entry list" where
  "trendLoop exps departmentId year currentMonth 0 trends = trends"
| "trendLoop exps departmentId year currentMonth (Suc i) trends =
     trendLoop exps departmentId year currentMonth i
       (trends @ [trendEntry exps departmentId year currentMonth (int i)])"

text \<open>\<open>currentMonth\<close> is \<^verbatim>\<open>new Date().getMonth() + 1\<close>, read from the clock.\<close>

definition getMonthlyTrend ::
  "int \<Rightarrow> expense list \<Rightarrow> nat option \<Rightarrow> int \<Rightarrow> int \<Rightarrow> trend_entry list" where
  "getMonthlyTrend currentMonth exps departmentId year numberOfMonths =
     trendLoop exps departmentId year currentMonth (nat numberOfMonths) []"

section \<open>Updating an expense (expenseController.js, updateExpense)\<close>







section \<open>The debounced scheduler (reportService.js, scheduleReportGeneration)\<close>

text \<open>
  Time is a count of milliseconds. A pending \<^verbatim>\<open>setTimeout\<close> is a timer in the runtime's
  queue: its handle, the instant it is due, and the period its callback closes over.
  \<open>debounceTimers\<close> is the module's object of that name; the key \<^verbatim>\<open>`${month}-${year}`\<close>
  is kept as the pair it is printed from.
\<close>

type_synonym period = "int \<times> int"

record timer =
  handle :: nat
  due :: nat
  tkey :: period

record system =
  now :: nat
  timers :: "timer list"
  debounceTimers :: "period \<Rightarrow> nat option"
  nextHandle :: nat
  store :: db
  runs :: "(period \<times> nat \<times> outcome) list"








text \<open>The instants at which the recomputation for a period started.\<close>

definition runsOf :: "period \<Rightarrow> system \<Rightarrow> nat list" where
  "runsOf key s = map (\<lambda>r. fst (snd r)) (filter (\<lambda>r. fst r = key) (runs s))"







section \<open>Concrete inputs\<close>

definition noFaults :: faults where
  "noFaults = \<lparr> readFails = False, writeFails = False \<rparr>"

text \<open>A runtime whose \<^verbatim>\<open>JSON.parse\<close> throws on every text.\<close>

definition neverParses :: runtime where
  "neverParses = \<lparr> JSON_parse = (\<lambda>s. None), omitUndefined = True \<rparr>"

definition opsDept :: "rat \<Rightarrow> department" where
  "opsDept budget =
     \<lparr> d_id = 1, d_name = ''Ops'', d_allocatedBudget = budget, d_status = ''Active'',
       d_month = None, d_year = None \<rparr>"

definition opsExpense :: "nat \<Rightarrow> rat \<Rightarrow> int \<Rightarrow> expense" where
  "opsExpense i a d =
     \<lparr> e_id = i, e_departmentId = 1, e_amount = a, e_category = ''Travel'',
       e_description = None, e_date = d, e_createdBy = 7 \<rparr>"

definition opsRequest :: report_request where
  "opsRequest = \<lparr> q_departmentId = Some 1, q_month = 3, q_year = 2024, q_user = 9 \<rparr>"

text \<open>15 March 2024, noon.\<close>

definition midMarch :: int where
  "midMarch = newDate 2024 2 15 12 0 0"





definition opsMarchReport :: report where
  "opsMarchReport = (blankReport 0 3 2024)\<lparr> r_departmentId := Some 1 \<rparr>"

definition orphanStore :: db where
  "orphanStore = \<lparr> departments = [], expenses = [], reports = [opsMarchReport] \<rparr>"

definition storeWithReport :: db where
  "storeWithReport =
     \<lparr> departments = [opsDept 1000], expenses = [opsExpense 1 950 midMarch], reports = [opsMarchReport] \<rparr>"










section \<open>Properties\<close>

subsection \<open>Totals\<close>

text \<open>No department, no budget; no expense, nothing spent.\<close>

lemma calculateTotalBudget_empty: "calculateTotalBudget [] month year = 0"
  by (simp add: calculateTotalBudget_def)

lemma calculateTotalSpent_empty: "calculateTotalSpent [] month year = 0"
  by (simp add: calculateTotalSpent_def)

subsection \<open>Percentage used\<close>

lemma floor_half: "\<lfloor>(1::rat) / 2\<rfloor> = 0"
  by (simp add: floor_eq_iff)

lemma toFixed2_zero: "toFixed2 (Fin 0) = Fin 0"
  by (simp add: toFixed2_def floor_half)

text \<open>The two guarded paths give 0 for a department with no budget.\<close>

lemma getDepartmentBreakdown_zero_budget:
  "e \<in> set (getDepartmentBreakdown depts exps month year) \<Longrightarrow> b_allocatedBudget e = 0
   \<Longrightarrow> b_percentageUsed e = Fin 0"
  by (auto simp: getDepartmentBreakdown_def Let_def split: if_splits)

lemma departmentSnapshot_zero_budget:
  "d_allocatedBudget dept = 0 \<Longrightarrow> s_percentageUsed (departmentSnapshot exps month year dept) = Fin 0"
  by (simp add: departmentSnapshot_def Let_def toFixed2_zero)

text \<open>The on-demand path divides without the guard.\<close>

lemma reportFigures_zero_budget:
  "d_allocatedBudget dept = 0 \<Longrightarrow>
   dd_percentageUsed (reportFigures exps dept month year) =
     (let spent = calculateDepartmentSpending exps (d_id dept) (Some month) (Some year)
      in if spent = 0 then NaN else if 0 < spent then PosInfinity else NegInfinity)"
  by (simp add: reportFigures_def Let_def js_div_def js_mul_def split: prod.splits)

text \<open>
  C3. For a department whose allocated budget is 0, percentage used should be exactly 0
  on every path. On the on-demand path it is not: with a budget of 0 and one expense of
  100 in March 2024, \<open>generateReport\<close> answers 201 and stores a data snapshot whose
  percentage used is Infinity; with no expense at all the figure handed to the analysis
  is NaN.
\<close>

theorem generateReport_zero_budget_percentage:
  "map_option (\<lambda>r. map_option ds_percentageUsed (r_dataSnapshot r))
     (payload (fst (generateReport neverParses noFaults (SdkText ''busy'') opsRequest
        \<lparr> departments = [opsDept 0], expenses = [opsExpense 1 100 midMarch], reports = [] \<rparr>)))
     = Some (Some PosInfinity)
   \<and> dd_percentageUsed (reportFigures [] (opsDept 0) 3 2024) = NaN"
  by code_simp

theorem generateReport_zero_budget_percentage_witness:
  "payload (fst (generateReport neverParses noFaults (SdkText ''busy'') opsRequest
        \<lparr> departments = [opsDept 0], expenses = [opsExpense 1 100 midMarch], reports = [] \<rparr>))
     \<noteq> None"
  using generateReport_zero_budget_percentage by auto

subsection \<open>Fallback risk\<close>

lemma riskFromPercentage_thresholds:
  "riskFromPercentage (Fin p) = (if 90 < p then ''High'' else if 75 < p then ''Medium'' else ''Low'')"
  by (simp add: riskFromPercentage_def js_gt_def)

text \<open>The spec's example: 950 spent of 1000.\<close>

lemma fallback_risk_example:
  "dd_percentageUsed (reportFigures [opsExpense 1 950 midMarch] (opsDept 1000) 3 2024) = Fin 95
   \<and> toFixed2 (Fin 95) = Fin 95
   \<and> dd_remainingBudget (reportFigures [opsExpense 1 950 midMarch] (opsDept 1000) 3 2024) = 50
   \<and> a_riskLevel (fallbackAnalysis (reportFigures [opsExpense 1 950 midMarch] (opsDept 1000) 3 2024))
       = JStr ''High''"
  by code_simp

text \<open>
  C7. The fallback risk level should be High above 90, Medium above 75 and Low otherwise,
  for the scheduler as for the department analysis. The scheduler's fallback has no Low:
  with 500 spent of 1000 (50 percent) and a reply that does not parse, the stored Global
  report has risk level Medium, where the department rule gives Low.
\<close>

theorem scheduler_fallback_never_low:
  "map r_riskLevel (reports (snd (generateMonthlyReport neverParses noFaults (RestData (Some ''busy'')) 3 2024
      \<lparr> departments = [opsDept 1000], expenses = [opsExpense 1 500 midMarch], reports = [] \<rparr>)))
     = [JStr ''Medium'']
   \<and> aggregate \<lparr> departments = [opsDept 1000], expenses = [opsExpense 1 500 midMarch], reports = [] \<rparr> 3 2024
     = ([\<lparr> s_departmentName = ''Ops'', s_allocatedBudget = 1000, s_totalSpent = 500,
           s_percentageUsed = Fin 50, s_status = ''Active'' \<rparr>], 1000, 500, Fin 50)
   \<and> riskFromPercentage (Fin 50) = ''Low''"
  by code_simp

theorem scheduler_fallback_never_low_witness:
  "riskFromPercentage (Fin 50) \<noteq> ''Medium''"
  using scheduler_fallback_never_low by simp

subsection \<open>The month window\<close>

lemma foldl_sum: "foldl (\<lambda>sum x. sum + f x) a xs = a + sum_list (map f xs)"
  by (induction xs arbitrary: a) (simp_all add: add.assoc)

text \<open>
  The window of the code starts with the calendar month and ends 999 milliseconds before
  the month does: \<^verbatim>\<open>new Date(year, month, 0, 23, 59, 59)\<close> has no milliseconds.
\<close>

lemma code_window_end:
  "newDate year month 0 23 59 59 = calendarMonthLastInstant month year - 999"
  by (simp add: newDate_def MakeDay_def MakeTime_def calendarMonthLastInstant_def Let_def)

lemma code_window_start:
  "newDate year (month - 1) 1 0 0 0 = calendarMonthFirstInstant month year"
  by (simp add: newDate_def MakeTime_def calendarMonthFirstInstant_def)

lemma calculateTotalSpent_window:
  "calculateTotalSpent exps month year =
     sum_list (map e_amount (filter (\<lambda>e. calendarMonthFirstInstant month year \<le> e_date e
        \<and> e_date e \<le> calendarMonthLastInstant month year - 999) exps))"
  by (simp add: calculateTotalSpent_def Let_def foldl_sum code_window_end code_window_start)

lemma calculateDepartmentSpending_window:
  "month \<noteq> 0 \<Longrightarrow> year \<noteq> 0 \<Longrightarrow>
   calculateDepartmentSpending exps dept (Some month) (Some year) =
     sum_list (map e_amount (filter (\<lambda>e. e_departmentId e = dept
        \<and> calendarMonthFirstInstant month year \<le> e_date e
        \<and> e_date e \<le> calendarMonthLastInstant month year - 999) exps))"
  by (simp add: calculateDepartmentSpending_def Let_def foldl_sum code_window_end code_window_start)

text \<open>
  C8. Spending should sum the expenses dated within the calendar month, its first and
  last instants included. An expense of 100 dated at the last millisecond of March 2024
  (31 March, 23:59:59.999) lies in the month and is left out of both sums; the last date
  that counts is 23:59:59.000.
\<close>

theorem month_window_drops_last_second:
  "calendarMonthFirstInstant 3 2024 \<le> calendarMonthLastInstant 3 2024
   \<and> calculateTotalSpent [opsExpense 1 100 (calendarMonthLastInstant 3 2024)] 3 2024 = 0
   \<and> calculateDepartmentSpending [opsExpense 1 100 (calendarMonthLastInstant 3 2024)] 1 (Some 3) (Some 2024) = 0
   \<and> calculateTotalSpent [opsExpense 1 100 (calendarMonthLastInstant 3 2024 - 999)] 3 2024 = 100"
  by code_simp

theorem month_window_drops_last_second_witness:
  "calculateTotalSpent [opsExpense 1 100 (calendarMonthLastInstant 3 2024)] 3 2024 \<noteq> 100"
  using month_window_drops_last_second by simp

subsection \<open>Monthly trend\<close>

lemma trendLoop_eq:
  "trendLoop exps dep year cm n acc =
     acc @ map (\<lambda>i. trendEntry exps dep year cm (int i)) (rev [0..<n])"
  by (induction n arbitrary: acc) simp_all

lemma getMonthlyTrend_eq:
  "getMonthlyTrend cm exps dep year n =
     map (\<lambda>i. trendEntry exps dep year cm (int i)) (rev [0..<nat n])"
  by (simp add: getMonthlyTrend_def trendLoop_eq)

lemma getMonthlyTrend_length: "length (getMonthlyTrend cm exps dep year n) = nat n"
  by (simp add: getMonthlyTrend_eq)

lemma getMonthlyTrend_nth:
  assumes "j < nat n"
  shows "getMonthlyTrend cm exps dep year n ! j = trendEntry exps dep year cm (n - 1 - int j)"
proof -
  have "rev [0..<nat n] ! j = nat n - Suc j"
    using assms by (simp add: rev_nth)
  moreover have "int (nat n - Suc j) = n - 1 - int j"
    using assms by simp
  ultimately show ?thesis
    using assms by (simp add: getMonthlyTrend_eq del: of_nat_diff)
qed

lemma trendEntry_month:
  "t_month (trendEntry exps dep year cm i) = (if cm - i \<le> 0 then cm - i + 12 else cm - i)"
  by (simp add: trendEntry_def Let_def)

lemma trendEntry_year:
  "t_year (trendEntry exps dep year cm i) = (if cm - i \<le> 0 then year - 1 else year)"
  by (simp add: trendEntry_def Let_def)

lemma trendEntry_name:
  "t_monthName (trendEntry exps dep year cm i) = monthName (t_month (trendEntry exps dep year cm i))"
  by (simp add: trendEntry_def Let_def)

lemma trendEntry_spent:
  "t_spent (trendEntry exps dep year cm i) =
     (case dep of
        Some d \<Rightarrow> calculateDepartmentSpending exps d (Some (t_month (trendEntry exps dep year cm i)))
                    (Some (t_year (trendEntry exps dep year cm i)))
      | None \<Rightarrow> calculateTotalSpent exps (t_month (trendEntry exps dep year cm i))
                    (t_year (trendEntry exps dep year cm i)))"
  by (simp add: trendEntry_def Let_def split: option.splits)

text \<open>
  C9, as amended. For a current month \<open>cm\<close> in 1 to 12 and \<open>1 \<le> n \<le> cm + 12\<close>,
  \<open>getMonthlyTrend\<close> returns exactly \<open>n\<close> entries, oldest first, the last one for the
  current month. The entry \<open>ago\<close> months back holds the month \<open>(cm - 1 - ago) mod 12 + 1\<close>,
  which lies in 1 to 12, the year argument (less one when the walk has passed January),
  the label of that month, and the spending of that month and year: the department's when
  a department is given, the company's otherwise. Called with \<open>(null, 2024, 3)\<close> in March
  it returns January, February, March 2024.
\<close>

theorem getMonthlyTrend_within_a_year:
  assumes "1 \<le> cm" "cm \<le> 12" "1 \<le> n" "n \<le> cm + 12" "j < nat n"
  shows "length (getMonthlyTrend cm exps dep year n) = nat n
    \<and> (let e = getMonthlyTrend cm exps dep year n ! j; ago = n - 1 - int j
       in t_month e = (cm - 1 - ago) mod 12 + 1
        \<and> 1 \<le> t_month e \<and> t_month e \<le> 12
        \<and> t_year e = (if ago < cm then year else year - 1)
        \<and> t_monthName e = monthName (t_month e)
        \<and> t_spent e =
            (case dep of
               Some d \<Rightarrow> calculateDepartmentSpending exps d (Some (t_month e)) (Some (t_year e))
             | None \<Rightarrow> calculateTotalSpent exps (t_month e) (t_year e)))
    \<and> map (\<lambda>x. (t_month x, t_year x, t_monthName x)) (getMonthlyTrend 3 exps None 2024 3)
        = [(1, 2024, ''Jan''), (2, 2024, ''Feb''), (3, 2024, ''Mar'')]"
proof -
  define ago where "ago = n - 1 - int j"
  define e where "e = getMonthlyTrend cm exps dep year n ! j"
  have e: "e = trendEntry exps dep year cm ago"
    unfolding e_def ago_def using assms(5) by (rule getMonthlyTrend_nth)
  have b: "0 \<le> ago" "ago < cm + 12"
    using assms(1-5) unfolding ago_def by auto
  have m: "t_month e = (cm - 1 - ago) mod 12 + 1"
  proof (cases "cm - ago \<le> 0")
    case True
    then have "(cm - 1 - ago) mod 12 = cm - 1 - ago + 12"
      using b by presburger
    with True show ?thesis by (simp add: e trendEntry_month)
  next
    case False
    then have "(cm - 1 - ago) mod 12 = cm - 1 - ago"
      using b assms(2) by presburger
    with False show ?thesis by (simp add: e trendEntry_month)
  qed
  have r: "1 \<le> t_month e \<and> t_month e \<le> 12"
    using b assms(1,2) by (auto simp: e trendEntry_month)
  have y: "t_year e = (if ago < cm then year else year - 1)"
    by (auto simp: e trendEntry_year)
  have nm: "t_monthName e = monthName (t_month e)"
    by (simp add: e trendEntry_name)
  have sp: "t_spent e =
            (case dep of
               Some d \<Rightarrow> calculateDepartmentSpending exps d (Some (t_month e)) (Some (t_year e))
             | None \<Rightarrow> calculateTotalSpent exps (t_month e) (t_year e))"
    unfolding e by (rule trendEntry_spent)
  have ex: "map (\<lambda>x. (t_month x, t_year x, t_monthName x)) (getMonthlyTrend 3 exps None 2024 3)
        = [(1, 2024, ''Jan''), (2, 2024, ''Feb''), (3, 2024, ''Mar'')]"
    by (simp add: getMonthlyTrend_eq numeral_3_eq_3 trendEntry_def monthName_def Let_def)
  show ?thesis
    using m r y nm sp ex getMonthlyTrend_length [of cm exps dep year n]
    unfolding Let_def e_def [symmetric] ago_def [symmetric] by blast
qed

theorem getMonthlyTrend_within_a_year_witness:
  "length (getMonthlyTrend 2 [opsExpense 1 100 midMarch] (Some 1) 2024 6) = 6
   \<and> t_month (getMonthlyTrend 2 [opsExpense 1 100 midMarch] (Some 1) 2024 6 ! 0) = 9
   \<and> t_year (getMonthlyTrend 2 [opsExpense 1 100 midMarch] (Some 1) 2024 6 ! 0) = 2023"
  using getMonthlyTrend_within_a_year [of 2 6 0 "[opsExpense 1 100 midMarch]" "Some 1" 2024]
  by (simp add: Let_def)

text \<open>
  C9 as stated fails for a longer walk: the loop rolls the year over once, so 16 months
  back from March the first entry has month 0.
\<close>

theorem getMonthlyTrend_month_zero:
  "map t_month (getMonthlyTrend 3 [] None 2024 16) = [0, 1, 2, 3, 4, 5, 6, 7, 8, 9, 10, 11, 12, 1, 2, 3]"
  by code_simp

subsection \<open>Updating an expense\<close>









subsection \<open>Failures of the analysis and of the run\<close>
















subsection \<open>A failed run\<close>



subsection \<open>On-demand generation for an existing report\<close>

lemma generateReport_unchanged_or_created:
  "generateReport rt flt reply q st = (r, st') \<Longrightarrow>
     (st' = st \<and> \<not> ok r \<and> payload r = None)
     \<or> (find (\<lambda>r. r_departmentId r = q_departmentId q \<and> r_month r = q_month q
                   \<and> r_year r = q_year q) (reports st) = None)"
  by (auto simp: generateReport_def Let_def split: if_splits option.splits ai_result.splits)

text \<open>
  C6, as amended. When a report exists for the department, month and year of the request,
  \<open>generateReport\<close> writes nothing and leaves the stored reports as they are, and it
  answers with a failure. The failure is the conflict (status 400 and the message that a
  report already exists) when the request passes validation, the data store answers and
  the department exists; the checks that come first answer otherwise.
\<close>

theorem generateReport_existing_report:
  assumes "find (\<lambda>r. r_departmentId r = q_departmentId q \<and> r_month r = q_month q
                     \<and> r_year r = q_year q) (reports st) = Some existing"
  shows "snd (generateReport rt flt reply q st) = st
    \<and> \<not> ok (fst (generateReport rt flt reply q st))
    \<and> payload (fst (generateReport rt flt reply q st)) = None
    \<and> (reportValidation q \<and> \<not> readFails flt
         \<and> find (\<lambda>d. Some (d_id d) = q_departmentId q) (departments st) \<noteq> None
       \<longrightarrow> fst (generateReport rt flt reply q st) = Response 400 False reportExistsMessage None)"
proof -
  obtain r st' where g: "generateReport rt flt reply q st = (r, st')"
    by (cases "generateReport rt flt reply q st")
  from generateReport_unchanged_or_created [OF g] assms
  have u: "st' = st \<and> \<not> ok r \<and> payload r = None" by auto
  have c: "reportValidation q \<and> \<not> readFails flt
         \<and> find (\<lambda>d. Some (d_id d) = q_departmentId q) (departments st) \<noteq> None
       \<longrightarrow> r = Response 400 False reportExistsMessage None"
    using g assms by (auto simp: generateReport_def)
  from u c show ?thesis by (simp add: g)
qed

theorem generateReport_existing_report_witness:
  "generateReport neverParses noFaults (SdkText ''busy'') opsRequest storeWithReport
     = (Response 400 False reportExistsMessage None, storeWithReport)"
proof -
  have "find (\<lambda>r. r_departmentId r = q_departmentId opsRequest \<and> r_month r = q_month opsRequest
                     \<and> r_year r = q_year opsRequest) (reports storeWithReport) = Some opsMarchReport"
    by (simp add: storeWithReport_def opsMarchReport_def opsRequest_def blankReport_def)
  from generateReport_existing_report [OF this, of neverParses noFaults "SdkText ''busy''"]
  show ?thesis
    by (simp add: prod_eq_iff reportValidation_def opsRequest_def noFaults_def storeWithReport_def opsDept_def)
qed

text \<open>
  C6 as stated fails when the department of the existing report is gone (a department
  without expenses can be deleted, its reports stay): the answer is 404, not the conflict.
\<close>

theorem generateReport_department_gone:
  "find (\<lambda>r. r_departmentId r = q_departmentId opsRequest \<and> r_month r = q_month opsRequest
               \<and> r_year r = q_year opsRequest) (reports orphanStore) = Some opsMarchReport
   \<and> generateReport neverParses noFaults (SdkText ''busy'') opsRequest orphanStore
       = (Response 404 False ''Department not found'' None, orphanStore)"
  by (simp add: generateReport_def orphanStore_def opsMarchReport_def opsRequest_def blankReport_def
      reportValidation_def noFaults_def)

subsection \<open>One report for each key\<close>







lemma setReportData_department [simp]: "r_departmentId (setReportData ou rd r) = r_departmentId r"
  by (simp add: setReportData_def)



















subsection \<open>The debounced scheduler\<close>
















text \<open>The event loop.\<close>

lemma runsOf_update [simp]:
  "runsOf key (s\<lparr>timers := ts\<rparr>) = runsOf key s"
  "runsOf key (s\<lparr>now := n\<rparr>) = runsOf key s"
  by (simp_all add: runsOf_def)













end
